theory Spec2Isabelle
  imports Main "HOL-Library.Sublist"
begin

section \<open>The admin API client of My-Project\<close>

text \<open>
  The repository holds three versions of the React client's request module:
  \<^item> \<^verbatim>\<open>frontend/src/api.js\<close>: an axios instance named \<^verbatim>\<open>api\<close> on the base URL
    \<^verbatim>\<open>${API_URL}/api\<close>, used by the team, site-settings, vehicle and blog wrappers, and
    four tour-package wrappers written against the name \<^verbatim>\<open>API\<close>;
  \<^item> \<^verbatim>\<open>unnamed/part_001\<close>: an axios instance named \<^verbatim>\<open>API\<close> on the base URL
    \<^verbatim>\<open>process.env.REACT_APP_BACKEND_URL\<close>, with paths that start with \<^verbatim>\<open>/api\<close>;
  \<^item> \<^verbatim>\<open>unnamed/part_002\<close>: the instance declaration of \<^verbatim>\<open>api.js\<close> followed by the
    wrappers and the default export of \<^verbatim>\<open>part_001\<close>.

  Every exported function is an arrow function whose body is one member call on an
  identifier. The model keeps the module's bindings as an explicit state: a call takes the
  bindings and returns its outcome (an error or the request handed to axios) together with
  the bindings after the call.
\<close>

subsection \<open>Values, errors and requests\<close>

text \<open>The two variables the modules read from \<^verbatim>\<open>process.env\<close>; an unset variable is \<open>None\<close>.\<close>

record env =
  REACT_APP_API_URL :: "string option"
  REACT_APP_BACKEND_URL :: "string option"

datatype error = ReferenceError string | TypeError string

datatype http_method = GET | POST | PUT | DELETE

text \<open>
  The configuration of an axios instance. The source sets \<^verbatim>\<open>baseURL\<close> and (in two of the
  files) \<^verbatim>\<open>withCredentials\<close>; a key the object literal leaves out is \<open>None\<close>, and the
  custom headers and query parameters, which no file sets, are empty lists.
\<close>

record config =
  baseURL :: "string option"
  withCredentials :: "bool option"
  headers :: "(string \<times> string) list"
  params :: "(string \<times> string) list"

text \<open>
  A request is the instance's configuration extended by what the member call supplies:
  \<^verbatim>\<open>get(url)\<close> and \<^verbatim>\<open>delete(url)\<close> carry no body, \<^verbatim>\<open>post(url, data)\<close> and
  \<^verbatim>\<open>put(url, data)\<close> carry \<^verbatim>\<open>data\<close>.
\<close>

record 'd request = config +
  verb :: http_method
  url :: string
  data :: "'d option"

datatype binding = Instance config | StringVal string | Function

type_synonym scope = "(string \<times> binding) list"

type_synonym 'd outcome = "(error + 'd request) \<times> scope"

subsection \<open>JavaScript and axios primitives\<close>

text \<open>\<^verbatim>\<open>a || b\<close> on an environment variable: \<^verbatim>\<open>undefined\<close> and the empty string are falsy.\<close>

definition or_default :: "string option \<Rightarrow> string \<Rightarrow> string" where
  "or_default a b = (case a of None \<Rightarrow> b | Some s \<Rightarrow> if s = [] then b else s)"

text \<open>\<^verbatim>\<open>axios.create(cfg)\<close>: an instance whose defaults are \<^verbatim>\<open>cfg\<close>.\<close>

definition axios_create :: "config \<Rightarrow> binding" where
  "axios_create cfg = Instance cfg"

text \<open>The imported \<^verbatim>\<open>axios\<close> object is itself an instance, with no base URL.\<close>

definition axios :: binding where
  "axios = Instance \<lparr>baseURL = None, withCredentials = None, headers = [], params = []\<rparr>"

text \<open>The request an instance builds from a verb, a relative URL and an optional body.\<close>

definition build_request :: "config \<Rightarrow> http_method \<Rightarrow> string \<Rightarrow> 'd option \<Rightarrow> 'd request" where
  "build_request cfg m u d =
     \<lparr>baseURL = baseURL cfg, withCredentials = withCredentials cfg,
      headers = headers cfg, params = params cfg, verb = m, url = u, data = d\<rparr>"

text \<open>
  The member call \<^verbatim>\<open>X.verb(url [, data])\<close> inside an exported function. The identifier is
  resolved first: an identifier with no binding throws \<^verbatim>\<open>ReferenceError\<close>, a binding that
  is not an axios instance has no such method and throws \<^verbatim>\<open>TypeError\<close>. The bindings are
  returned as they were: all of them are \<^verbatim>\<open>const\<close>. Identifiers are looked up among
  the bindings of the module; the global object of the host is taken to define none of
  the names the files use.
\<close>

definition member_call :: "string \<Rightarrow> http_method \<Rightarrow> string \<Rightarrow> 'd option \<Rightarrow> scope \<Rightarrow> 'd outcome" where
  "member_call x m u d s =
     (case map_of s x of
        None \<Rightarrow> (Inl (ReferenceError x), s)
      | Some (Instance cfg) \<Rightarrow> (Inr (build_request cfg m u d), s)
      | Some (StringVal v) \<Rightarrow> (Inl (TypeError x), s)
      | Some Function \<Rightarrow> (Inl (TypeError x), s))"

text \<open>
  The URL axios 1.x sends a request to (its \<^verbatim>\<open>buildFullPath\<close>, \<^verbatim>\<open>isAbsoluteURL\<close> and
  \<^verbatim>\<open>combineURLs\<close>; the library is a dependency of the client): with a non-empty base URL
  and a relative URL that is not absolute, the base URL without its trailing slash, a
  slash, and the relative URL without its leading slashes; the relative URL alone
  otherwise.
\<close>

definition is_alpha :: "char \<Rightarrow> bool" where
  "is_alpha c = (let n = (of_char c :: nat) in (65 \<le> n \<and> n \<le> 90) \<or> (97 \<le> n \<and> n \<le> 122))"

definition is_scheme_char :: "char \<Rightarrow> bool" where
  "is_scheme_char c =
     (let n = (of_char c :: nat) in is_alpha c \<or> (48 \<le> n \<and> n \<le> 57) \<or> n = 43 \<or> n = 45 \<or> n = 46)"

text \<open>\<^verbatim>\<open>/^([a-z][a-z\d+\-.]*:)?\/\//i\<close>\<close>

definition isAbsoluteURL :: "string \<Rightarrow> bool" where
  "isAbsoluteURL u =
     (take 2 u = ''//'' \<or>
      (case u of [] \<Rightarrow> False
       | c # cs \<Rightarrow> is_alpha c \<and> take 3 (dropWhile is_scheme_char cs) = ''://''))"

text \<open>\<^verbatim>\<open>baseURL.replace(/\/?\/$/, '')\<close>\<close>

definition strip_trailing_slash :: "string \<Rightarrow> string" where
  "strip_trailing_slash b =
     (let r = rev b in
      if take 2 r = ''//'' then rev (drop 2 r)
      else if take 1 r = ''/'' then rev (drop 1 r)
      else b)"

text \<open>\<^verbatim>\<open>relativeURL.replace(/^\/+/, '')\<close>\<close>

definition strip_leading_slashes :: "string \<Rightarrow> string" where
  "strip_leading_slashes u = dropWhile (\<lambda>c. c = CHR ''/'') u"

definition combineURLs :: "string \<Rightarrow> string \<Rightarrow> string" where
  "combineURLs b u =
     (if u = [] then b else strip_trailing_slash b @ ''/'' @ strip_leading_slashes u)"

definition buildFullPath :: "string option \<Rightarrow> string \<Rightarrow> string" where
  "buildFullPath b u =
     (case b of
        None \<Rightarrow> u
      | Some b' \<Rightarrow> if b' = [] then u else if isAbsoluteURL u then u else combineURLs b' u)"

definition full_url :: "'d request \<Rightarrow> string" where
  "full_url r = buildFullPath (baseURL r) (url r)"

subsection \<open>The path a request reaches\<close>

text \<open>
  The HTTP adapter (the browser's, or Node's) parses the URL before it sends the request:
  tabs and newlines are removed, the path runs from the end of the authority to the first
  \<^verbatim>\<open>?\<close> or \<^verbatim>\<open>#\<close>, it is split at \<^verbatim>\<open>/\<close> and at the backslash, a single-dot segment is
  dropped and a double-dot segment removes the segment before it; \<^verbatim>\<open>%2e\<close> counts as a
  dot. Only \<^verbatim>\<open>http\<close> and \<^verbatim>\<open>https\<close> URLs have an authority here; a URL with no scheme is a
  path on the page's origin.
\<close>

definition tab_or_newline :: "char \<Rightarrow> bool" where
  "tab_or_newline c = (let n = (of_char c :: nat) in n = 9 \<or> n = 10 \<or> n = 13)"

definition is_separator :: "char \<Rightarrow> bool" where
  "is_separator c = (c = CHR ''/'' \<or> (of_char c :: nat) = 92)"

definition ends_path :: "char \<Rightarrow> bool" where
  "ends_path c = (c = CHR ''?'' \<or> c = CHR ''#'')"

definition in_authority :: "char \<Rightarrow> bool" where
  "in_authority c = (if is_separator c then False else if ends_path c then False else True)"

definition in_path :: "char \<Rightarrow> bool" where
  "in_path c = (if ends_path c then False else True)"

definition kept :: "char \<Rightarrow> bool" where
  "kept c = (if tab_or_newline c then False else True)"

definition after_authority :: "string \<Rightarrow> string" where
  "after_authority u =
     (if prefix ''http://'' u then dropWhile in_authority (drop 7 u)
      else if prefix ''https://'' u then dropWhile in_authority (drop 8 u)
      else u)"

definition path_of :: "string \<Rightarrow> string" where
  "path_of u = takeWhile in_path (after_authority (filter kept u))"

text \<open>The segments of a path: a separator ends a segment.\<close>

fun split_path :: "string \<Rightarrow> string list" where
  "split_path [] = [[]]"
| "split_path (c # cs) =
     (if is_separator c then [] # split_path cs
      else (case split_path cs of [] \<Rightarrow> [[c]] | s # ss \<Rightarrow> (c # s) # ss))"

definition is_single_dot :: "string \<Rightarrow> bool" where
  "is_single_dot s = (s = ''.'' \<or> s = ''%2e'' \<or> s = ''%2E'')"

definition is_double_dot :: "string \<Rightarrow> bool" where
  "is_double_dot s =
     (s = ''..'' \<or> s = ''.%2e'' \<or> s = ''.%2E'' \<or> s = ''%2e.'' \<or> s = ''%2E.'' \<or>
      s = ''%2e%2e'' \<or> s = ''%2E%2e'' \<or> s = ''%2e%2E'' \<or> s = ''%2E%2E'')"

text \<open>
  The segments after the dots are resolved, from left to right: \<open>acc\<close> holds the segments
  kept so far. A dot segment at the end of the path leaves an empty last segment.
\<close>

fun remove_dots :: "string list \<Rightarrow> string list \<Rightarrow> string list" where
  "remove_dots acc [] = acc"
| "remove_dots acc (s # ss) =
     (if is_double_dot s then remove_dots (butlast acc @ (if ss = [] then [[]] else [])) ss
      else if is_single_dot s then remove_dots (acc @ (if ss = [] then [[]] else [])) ss
      else remove_dots (acc @ [s]) ss)"

definition resolved_path :: "string \<Rightarrow> string" where
  "resolved_path u =
     (let p = path_of u
      in concat (map ((@) ''/'') (remove_dots [] (split_path (if p \<noteq> [] \<and> is_separator (hd p) then tl p else p)))))"


text \<open>
  A base URL that is an origin: \<^verbatim>\<open>http://\<close> or \<^verbatim>\<open>https://\<close> and a non-empty authority. A
  good base is an origin, or empty (the request then goes to the page's origin).
\<close>

definition http_origin :: "string \<Rightarrow> bool" where
  "http_origin b =
     (let h = (if prefix ''http://'' b then drop 7 b
               else if prefix ''https://'' b then drop 8 b else [])
      in h \<noteq> [] \<and> list_all (\<lambda>c. in_authority c \<and> kept c) h)"

definition good_base :: "string \<Rightarrow> bool" where
  "good_base b = (if b = [] then True else http_origin b)"

subsection \<open>frontend/src/api.js\<close>

definition API_URL :: "env \<Rightarrow> string" where
  "API_URL e = or_default (REACT_APP_API_URL e) ''http://localhost:8000''"

definition api :: "env \<Rightarrow> binding" where
  "api e = axios_create
     \<lparr>baseURL = Some (API_URL e @ ''/api''), withCredentials = Some False,
      headers = [], params = []\<rparr>"

text \<open>The bindings of the module: the import, the two constants and the exported functions.\<close>

definition scope_api :: "env \<Rightarrow> scope" where
  "scope_api e =
     [(''axios'', axios), (''API_URL'', StringVal (API_URL e)), (''api'', api e),
      (''fetchTeam'', Function), (''addTeamMember'', Function),
      (''updateTeamMember'', Function), (''deleteTeamMember'', Function),
      (''fetchSiteSettings'', Function), (''updateSiteSettings'', Function),
      (''fetchVehicles'', Function), (''createVehicle'', Function),
      (''updateVehicle'', Function), (''deleteVehicle'', Function),
      (''fetchBlogs'', Function), (''createBlog'', Function),
      (''updateBlog'', Function), (''deleteBlog'', Function),
      (''fetchPackages'', Function), (''createPackage'', Function),
      (''updatePackage'', Function), (''deletePackage'', Function)]"

text \<open>
  An identifier evaluated while the module loads, as \<^verbatim>\<open>export default X\<close> does.
\<close>

definition resolve :: "scope \<Rightarrow> string \<Rightarrow> error + binding" where
  "resolve s x = (case map_of s x of None \<Rightarrow> Inl (ReferenceError x) | Some b \<Rightarrow> Inr b)"

text \<open>Loading the module: the bindings, then \<^verbatim>\<open>export default api\<close>.\<close>

definition load_api :: "env \<Rightarrow> error + scope" where
  "load_api e = (case resolve (scope_api e) ''api'' of Inl err \<Rightarrow> Inl err | Inr b \<Rightarrow> Inr (scope_api e))"

text \<open>
  The exported functions. An \<^verbatim>\<open>id\<close> is the string the template literal interpolates.
\<close>

definition fetchTeam :: "scope \<Rightarrow> 'd outcome" where
  "fetchTeam = member_call ''api'' GET ''/admin/team'' None"

definition addTeamMember :: "'d \<Rightarrow> scope \<Rightarrow> 'd outcome" where
  "addTeamMember d = member_call ''api'' POST ''/admin/team'' (Some d)"

definition updateTeamMember :: "string \<Rightarrow> 'd \<Rightarrow> scope \<Rightarrow> 'd outcome" where
  "updateTeamMember i d = member_call ''api'' PUT (''/admin/team/'' @ i) (Some d)"

definition deleteTeamMember :: "string \<Rightarrow> scope \<Rightarrow> 'd outcome" where
  "deleteTeamMember i = member_call ''api'' DELETE (''/admin/team/'' @ i) None"

definition fetchSiteSettings :: "scope \<Rightarrow> 'd outcome" where
  "fetchSiteSettings = member_call ''api'' GET ''/admin/site-settings'' None"

definition updateSiteSettings :: "'d \<Rightarrow> scope \<Rightarrow> 'd outcome" where
  "updateSiteSettings d = member_call ''api'' PUT ''/admin/site-settings'' (Some d)"

definition fetchVehicles :: "scope \<Rightarrow> 'd outcome" where
  "fetchVehicles = member_call ''api'' GET ''/admin/vehicles'' None"

definition createVehicle :: "'d \<Rightarrow> scope \<Rightarrow> 'd outcome" where
  "createVehicle d = member_call ''api'' POST ''/admin/vehicles'' (Some d)"

definition updateVehicle :: "string \<Rightarrow> 'd \<Rightarrow> scope \<Rightarrow> 'd outcome" where
  "updateVehicle i d = member_call ''api'' PUT (''/admin/vehicles/'' @ i) (Some d)"

definition deleteVehicle :: "string \<Rightarrow> scope \<Rightarrow> 'd outcome" where
  "deleteVehicle i = member_call ''api'' DELETE (''/admin/vehicles/'' @ i) None"

definition fetchBlogs :: "scope \<Rightarrow> 'd outcome" where
  "fetchBlogs = member_call ''api'' GET ''/admin/blogs'' None"

definition createBlog :: "'d \<Rightarrow> scope \<Rightarrow> 'd outcome" where
  "createBlog d = member_call ''api'' POST ''/admin/blogs'' (Some d)"

definition updateBlog :: "string \<Rightarrow> 'd \<Rightarrow> scope \<Rightarrow> 'd outcome" where
  "updateBlog i d = member_call ''api'' PUT (''/admin/blogs/'' @ i) (Some d)"

definition deleteBlog :: "string \<Rightarrow> scope \<Rightarrow> 'd outcome" where
  "deleteBlog i = member_call ''api'' DELETE (''/admin/blogs/'' @ i) None"

definition fetchPackages :: "scope \<Rightarrow> 'd outcome" where
  "fetchPackages = member_call ''API'' GET ''/packages'' None"

definition createPackage :: "'d \<Rightarrow> scope \<Rightarrow> 'd outcome" where
  "createPackage d = member_call ''API'' POST ''/admin/packages'' (Some d)"

definition updatePackage :: "string \<Rightarrow> 'd \<Rightarrow> scope \<Rightarrow> 'd outcome" where
  "updatePackage i d = member_call ''API'' PUT (''/admin/packages/'' @ i) (Some d)"

definition deletePackage :: "string \<Rightarrow> scope \<Rightarrow> 'd outcome" where
  "deletePackage i = member_call ''API'' DELETE (''/admin/packages/'' @ i) None"

text \<open>
  A call of one of the ten exports the three files have in common, and a call of one of
  the four tour-package exports of \<^verbatim>\<open>api.js\<close>.
\<close>

datatype 'd call =
    FetchTeam | AddTeamMember 'd | UpdateTeamMember string 'd | DeleteTeamMember string
  | FetchSiteSettings | UpdateSiteSettings 'd
  | FetchVehicles | CreateVehicle 'd | UpdateVehicle string 'd | DeleteVehicle string
  | FetchBlogs | CreateBlog 'd | UpdateBlog string 'd | DeleteBlog string

datatype 'd package_call =
    FetchPackages | CreatePackage 'd | UpdatePackage string 'd | DeletePackage string

fun invoke_api :: "'d call \<Rightarrow> scope \<Rightarrow> 'd outcome" where
  "invoke_api FetchTeam = fetchTeam"
| "invoke_api (AddTeamMember d) = addTeamMember d"
| "invoke_api (UpdateTeamMember i d) = updateTeamMember i d"
| "invoke_api (DeleteTeamMember i) = deleteTeamMember i"
| "invoke_api FetchSiteSettings = fetchSiteSettings"
| "invoke_api (UpdateSiteSettings d) = updateSiteSettings d"
| "invoke_api FetchVehicles = fetchVehicles"
| "invoke_api (CreateVehicle d) = createVehicle d"
| "invoke_api (UpdateVehicle i d) = updateVehicle i d"
| "invoke_api (DeleteVehicle i) = deleteVehicle i"
| "invoke_api FetchBlogs = fetchBlogs"
| "invoke_api (CreateBlog d) = createBlog d"
| "invoke_api (UpdateBlog i d) = updateBlog i d"
| "invoke_api (DeleteBlog i) = deleteBlog i"

fun invoke_package_api :: "'d package_call \<Rightarrow> scope \<Rightarrow> 'd outcome" where
  "invoke_package_api FetchPackages = fetchPackages"
| "invoke_package_api (CreatePackage d) = createPackage d"
| "invoke_package_api (UpdatePackage i d) = updatePackage i d"
| "invoke_package_api (DeletePackage i) = deletePackage i"

subsection \<open>unnamed/part_001\<close>

text \<open>
  The instance is named \<^verbatim>\<open>API\<close>; its base URL is the environment variable as it is,
  with no fallback, and \<^verbatim>\<open>withCredentials\<close> is left out. The names of this file carry
  the suffix \<open>_p1\<close>.
\<close>

definition API_p1 :: "env \<Rightarrow> binding" where
  "API_p1 e = axios_create
     \<lparr>baseURL = REACT_APP_BACKEND_URL e, withCredentials = None, headers = [], params = []\<rparr>"

definition scope_p1 :: "env \<Rightarrow> scope" where
  "scope_p1 e =
     [(''axios'', axios), (''API'', API_p1 e),
      (''fetchTeam'', Function), (''addTeamMember'', Function),
      (''updateTeamMember'', Function), (''deleteTeamMember'', Function),
      (''fetchSiteSettings'', Function), (''updateSiteSettings'', Function),
      (''fetchVehicles'', Function), (''createVehicle'', Function),
      (''updateVehicle'', Function), (''deleteVehicle'', Function),
      (''fetchBlogs'', Function), (''createBlog'', Function),
      (''updateBlog'', Function), (''deleteBlog'', Function)]"

text \<open>Loading the module: the bindings, then \<^verbatim>\<open>export default API\<close>.\<close>

definition load_p1 :: "env \<Rightarrow> error + scope" where
  "load_p1 e = (case resolve (scope_p1 e) ''API'' of Inl err \<Rightarrow> Inl err | Inr b \<Rightarrow> Inr (scope_p1 e))"

definition fetchTeam_p1 :: "scope \<Rightarrow> 'd outcome" where
  "fetchTeam_p1 = member_call ''API'' GET ''/api/admin/team'' None"

definition addTeamMember_p1 :: "'d \<Rightarrow> scope \<Rightarrow> 'd outcome" where
  "addTeamMember_p1 d = member_call ''API'' POST ''/api/admin/team'' (Some d)"

definition updateTeamMember_p1 :: "string \<Rightarrow> 'd \<Rightarrow> scope \<Rightarrow> 'd outcome" where
  "updateTeamMember_p1 i d = member_call ''API'' PUT (''/api/admin/team/'' @ i) (Some d)"

definition deleteTeamMember_p1 :: "string \<Rightarrow> scope \<Rightarrow> 'd outcome" where
  "deleteTeamMember_p1 i = member_call ''API'' DELETE (''/api/admin/team/'' @ i) None"

definition fetchSiteSettings_p1 :: "scope \<Rightarrow> 'd outcome" where
  "fetchSiteSettings_p1 = member_call ''API'' GET ''/api/admin/site-settings'' None"

definition updateSiteSettings_p1 :: "'d \<Rightarrow> scope \<Rightarrow> 'd outcome" where
  "updateSiteSettings_p1 d = member_call ''API'' PUT ''/api/admin/site-settings'' (Some d)"

definition fetchVehicles_p1 :: "scope \<Rightarrow> 'd outcome" where
  "fetchVehicles_p1 = member_call ''API'' GET ''/api/admin/vehicles'' None"

definition createVehicle_p1 :: "'d \<Rightarrow> scope \<Rightarrow> 'd outcome" where
  "createVehicle_p1 d = member_call ''API'' POST ''/api/admin/vehicles'' (Some d)"

definition updateVehicle_p1 :: "string \<Rightarrow> 'd \<Rightarrow> scope \<Rightarrow> 'd outcome" where
  "updateVehicle_p1 i d = member_call ''API'' PUT (''/api/admin/vehicles/'' @ i) (Some d)"

definition deleteVehicle_p1 :: "string \<Rightarrow> scope \<Rightarrow> 'd outcome" where
  "deleteVehicle_p1 i = member_call ''API'' DELETE (''/api/admin/vehicles/'' @ i) None"

definition fetchBlogs_p1 :: "scope \<Rightarrow> 'd outcome" where
  "fetchBlogs_p1 = member_call ''API'' GET ''/api/admin/blogs'' None"

definition createBlog_p1 :: "'d \<Rightarrow> scope \<Rightarrow> 'd outcome" where
  "createBlog_p1 d = member_call ''API'' POST ''/api/admin/blogs'' (Some d)"

definition updateBlog_p1 :: "string \<Rightarrow> 'd \<Rightarrow> scope \<Rightarrow> 'd outcome" where
  "updateBlog_p1 i d = member_call ''API'' PUT (''/api/admin/blogs/'' @ i) (Some d)"

definition deleteBlog_p1 :: "string \<Rightarrow> scope \<Rightarrow> 'd outcome" where
  "deleteBlog_p1 i = member_call ''API'' DELETE (''/api/admin/blogs/'' @ i) None"

fun invoke_p1 :: "'d call \<Rightarrow> scope \<Rightarrow> 'd outcome" where
  "invoke_p1 FetchTeam = fetchTeam_p1"
| "invoke_p1 (AddTeamMember d) = addTeamMember_p1 d"
| "invoke_p1 (UpdateTeamMember i d) = updateTeamMember_p1 i d"
| "invoke_p1 (DeleteTeamMember i) = deleteTeamMember_p1 i"
| "invoke_p1 FetchSiteSettings = fetchSiteSettings_p1"
| "invoke_p1 (UpdateSiteSettings d) = updateSiteSettings_p1 d"
| "invoke_p1 FetchVehicles = fetchVehicles_p1"
| "invoke_p1 (CreateVehicle d) = createVehicle_p1 d"
| "invoke_p1 (UpdateVehicle i d) = updateVehicle_p1 i d"
| "invoke_p1 (DeleteVehicle i) = deleteVehicle_p1 i"
| "invoke_p1 FetchBlogs = fetchBlogs_p1"
| "invoke_p1 (CreateBlog d) = createBlog_p1 d"
| "invoke_p1 (UpdateBlog i d) = updateBlog_p1 i d"
| "invoke_p1 (DeleteBlog i) = deleteBlog_p1 i"

subsection \<open>unnamed/part_002\<close>

text \<open>
  The constant \<^verbatim>\<open>API_URL\<close> and the instance \<^verbatim>\<open>api\<close> are declared as in \<^verbatim>\<open>api.js\<close>;
  the wrappers and the default export name \<^verbatim>\<open>API\<close>. The names of this file carry the
  suffix \<open>_p2\<close>.
\<close>

definition scope_p2 :: "env \<Rightarrow> scope" where
  "scope_p2 e =
     [(''axios'', axios), (''API_URL'', StringVal (API_URL e)), (''api'', api e),
      (''fetchTeam'', Function), (''addTeamMember'', Function),
      (''updateTeamMember'', Function), (''deleteTeamMember'', Function),
      (''fetchSiteSettings'', Function), (''updateSiteSettings'', Function),
      (''fetchVehicles'', Function), (''createVehicle'', Function),
      (''updateVehicle'', Function), (''deleteVehicle'', Function),
      (''fetchBlogs'', Function), (''createBlog'', Function),
      (''updateBlog'', Function), (''deleteBlog'', Function)]"

text \<open>Loading the module: the bindings, then \<^verbatim>\<open>export default API\<close>.\<close>

definition load_p2 :: "env \<Rightarrow> error + scope" where
  "load_p2 e = (case resolve (scope_p2 e) ''API'' of Inl err \<Rightarrow> Inl err | Inr b \<Rightarrow> Inr (scope_p2 e))"

definition fetchTeam_p2 :: "scope \<Rightarrow> 'd outcome" where
  "fetchTeam_p2 = member_call ''API'' GET ''/api/admin/team'' None"

definition addTeamMember_p2 :: "'d \<Rightarrow> scope \<Rightarrow> 'd outcome" where
  "addTeamMember_p2 d = member_call ''API'' POST ''/api/admin/team'' (Some d)"

definition updateTeamMember_p2 :: "string \<Rightarrow> 'd \<Rightarrow> scope \<Rightarrow> 'd outcome" where
  "updateTeamMember_p2 i d = member_call ''API'' PUT (''/api/admin/team/'' @ i) (Some d)"

definition deleteTeamMember_p2 :: "string \<Rightarrow> scope \<Rightarrow> 'd outcome" where
  "deleteTeamMember_p2 i = member_call ''API'' DELETE (''/api/admin/team/'' @ i) None"

definition fetchSiteSettings_p2 :: "scope \<Rightarrow> 'd outcome" where
  "fetchSiteSettings_p2 = member_call ''API'' GET ''/api/admin/site-settings'' None"

definition updateSiteSettings_p2 :: "'d \<Rightarrow> scope \<Rightarrow> 'd outcome" where
  "updateSiteSettings_p2 d = member_call ''API'' PUT ''/api/admin/site-settings'' (Some d)"

definition fetchVehicles_p2 :: "scope \<Rightarrow> 'd outcome" where
  "fetchVehicles_p2 = member_call ''API'' GET ''/api/admin/vehicles'' None"

definition createVehicle_p2 :: "'d \<Rightarrow> scope \<Rightarrow> 'd outcome" where
  "createVehicle_p2 d = member_call ''API'' POST ''/api/admin/vehicles'' (Some d)"

definition updateVehicle_p2 :: "string \<Rightarrow> 'd \<Rightarrow> scope \<Rightarrow> 'd outcome" where
  "updateVehicle_p2 i d = member_call ''API'' PUT (''/api/admin/vehicles/'' @ i) (Some d)"

definition deleteVehicle_p2 :: "string \<Rightarrow> scope \<Rightarrow> 'd outcome" where
  "deleteVehicle_p2 i = member_call ''API'' DELETE (''/api/admin/vehicles/'' @ i) None"

definition fetchBlogs_p2 :: "scope \<Rightarrow> 'd outcome" where
  "fetchBlogs_p2 = member_call ''API'' GET ''/api/admin/blogs'' None"

definition createBlog_p2 :: "'d \<Rightarrow> scope \<Rightarrow> 'd outcome" where
  "createBlog_p2 d = member_call ''API'' POST ''/api/admin/blogs'' (Some d)"

definition updateBlog_p2 :: "string \<Rightarrow> 'd \<Rightarrow> scope \<Rightarrow> 'd outcome" where
  "updateBlog_p2 i d = member_call ''API'' PUT (''/api/admin/blogs/'' @ i) (Some d)"

definition deleteBlog_p2 :: "string \<Rightarrow> scope \<Rightarrow> 'd outcome" where
  "deleteBlog_p2 i = member_call ''API'' DELETE (''/api/admin/blogs/'' @ i) None"

fun invoke_p2 :: "'d call \<Rightarrow> scope \<Rightarrow> 'd outcome" where
  "invoke_p2 FetchTeam = fetchTeam_p2"
| "invoke_p2 (AddTeamMember d) = addTeamMember_p2 d"
| "invoke_p2 (UpdateTeamMember i d) = updateTeamMember_p2 i d"
| "invoke_p2 (DeleteTeamMember i) = deleteTeamMember_p2 i"
| "invoke_p2 FetchSiteSettings = fetchSiteSettings_p2"
| "invoke_p2 (UpdateSiteSettings d) = updateSiteSettings_p2 d"
| "invoke_p2 FetchVehicles = fetchVehicles_p2"
| "invoke_p2 (CreateVehicle d) = createVehicle_p2 d"
| "invoke_p2 (UpdateVehicle i d) = updateVehicle_p2 i d"
| "invoke_p2 (DeleteVehicle i) = deleteVehicle_p2 i"
| "invoke_p2 FetchBlogs = fetchBlogs_p2"
| "invoke_p2 (CreateBlog d) = createBlog_p2 d"
| "invoke_p2 (UpdateBlog i d) = updateBlog_p2 i d"
| "invoke_p2 (DeleteBlog i) = deleteBlog_p2 i"

section \<open>The admin backend\<close>

text \<open>
  The server behind the client (the credential issuer, the authorization middleware and
  the resource controllers) is not among the source files; the definitions of this
  section follow the specification's sections 3 and 4.
\<close>

text \<open>
  Modelled from the spec: the five resource types, the error taxonomy of section 7, and
  the requests and responses of a controller of the absent server.
\<close>

datatype resource = Team | SiteSettings | Vehicles | Blogs | Packages

datatype api_error =
  AuthenticationError | AuthorizationError | ValidationError | NotFoundError | PersistenceError

text \<open>
  Modelled from the spec: the session token (subject, issued-at, expiry, signature); the
  token type of the absent server.
\<close>

record 'sg token =
  subject :: string
  issued_at :: nat
  expiry :: nat
  signature :: 'sg

text \<open>
  Modelled from the spec: a document is a list of fields, a collection a list of documents
  keyed by identifier, the store one collection for each resource.
\<close>

type_synonym document = "(string \<times> string) list"

type_synonym collection = "(nat \<times> document) list"

type_synonym store = "resource \<Rightarrow> collection"

datatype operation = OpList | OpCreate document | OpUpdate nat document | OpDelete nat

datatype response = Documents collection | Document nat document | Confirmation

text \<open>
  Modelled from the spec: the check of the absent authorization middleware, "valid,
  unexpired, correctly signed": the signature is the one the configured secret gives for
  the token's claims, and the token is not past its expiry. The signing function is a
  parameter.
\<close>

definition token_valid ::
  "('k \<Rightarrow> string \<times> nat \<times> nat \<Rightarrow> 'sg) \<Rightarrow> 'k \<Rightarrow> nat \<Rightarrow> 'sg token option \<Rightarrow> bool" where
  "token_valid sign secret now tok =
     (case tok of
        None \<Rightarrow> False
      | Some t \<Rightarrow> signature t = sign secret (subject t, issued_at t, expiry t) \<and> now \<le> expiry t)"

text \<open>
  Modelled from the spec: the absent authorization middleware (section 4.2). It fails with
  \<open>AuthenticationError\<close> on a missing, invalid or expired token and hands the decoded
  subject on otherwise.
\<close>

definition authorize ::
  "('k \<Rightarrow> string \<times> nat \<times> nat \<Rightarrow> 'sg) \<Rightarrow> 'k \<Rightarrow> nat \<Rightarrow> 'sg token option \<Rightarrow> api_error + string" where
  "authorize sign secret now tok =
     (case tok of
        None \<Rightarrow> Inl AuthenticationError
      | Some t \<Rightarrow>
          if signature t = sign secret (subject t, issued_at t, expiry t)
          then (if now \<le> expiry t then Inr (subject t) else Inl AuthenticationError)
          else Inl AuthenticationError)"

text \<open>Modelled from the spec: the identifier the absent create operation generates.\<close>

definition fresh_id :: "collection \<Rightarrow> nat" where
  "fresh_id c = Suc (fold max (map fst c) 0)"

text \<open>
  Modelled from the spec: the merge of the absent update operation; a provided field
  replaces the stored one.
\<close>

definition merge_fields :: "document \<Rightarrow> document \<Rightarrow> document" where
  "merge_fields new old = new @ filter (\<lambda>kv. map_of new (fst kv) = None) old"

text \<open>
  Modelled from the spec: the absent resource controllers (section 4.3): list, create,
  update(id), delete(id) on one collection of the store. The required fields of each
  resource are a parameter.
\<close>

definition controller ::
  "(resource \<Rightarrow> string list) \<Rightarrow> resource \<Rightarrow> operation \<Rightarrow> store \<Rightarrow> (api_error + response) \<times> store" where
  "controller required r op st =
     (case op of
        OpList \<Rightarrow> (Inr (Documents (st r)), st)
      | OpCreate doc \<Rightarrow>
          if list_all (\<lambda>f. map_of doc f \<noteq> None) (required r)
          then (let i = fresh_id (st r)
                in (Inr (Document i doc), st(r := st r @ [(i, doc)])))
          else (Inl ValidationError, st)
      | OpUpdate i doc \<Rightarrow>
          (case map_of (st r) i of
             None \<Rightarrow> (Inl NotFoundError, st)
           | Some old \<Rightarrow>
               (let new = merge_fields doc old
                in (Inr (Document i new),
                    st(r := map (\<lambda>(j, x). if j = i then (j, new) else (j, x)) (st r)))))
      | OpDelete i \<Rightarrow>
          (case map_of (st r) i of
             None \<Rightarrow> (Inl NotFoundError, st)
           | Some old \<Rightarrow> (Inr Confirmation, st(r := filter (\<lambda>(j, x). j \<noteq> i) (st r)))))"

text \<open>
  Modelled from the spec: an admin route of the absent server: the middleware runs before
  the wrapped controller, and a failure of the middleware is the response.
\<close>

definition admin_route ::
  "('k \<Rightarrow> string \<times> nat \<times> nat \<Rightarrow> 'sg) \<Rightarrow> 'k \<Rightarrow> (resource \<Rightarrow> string list) \<Rightarrow> nat \<Rightarrow>
   'sg token option \<Rightarrow> resource \<Rightarrow> operation \<Rightarrow> store \<Rightarrow> (api_error + response) \<times> store" where
  "admin_route sign secret required now tok r op st =
     (case authorize sign secret now tok of
        Inl err \<Rightarrow> (Inl err, st)
      | Inr subj \<Rightarrow> controller required r op st)"

section \<open>Observations\<close>

text \<open>
  What a call puts on the wire: the error it throws, or the verb, the URL axios resolves
  and the body of the request.
\<close>

definition sent :: "'d outcome \<Rightarrow> error + http_method \<times> string \<times> 'd option" where
  "sent out = (case fst out of Inl err \<Rightarrow> Inl err | Inr r \<Rightarrow> Inr (verb r, full_url r, data r))"

text \<open>
  The part of a \<^verbatim>\<open>part_001\<close> URL in front of the path: nothing when the variable is
  unset, the variable without its trailing slash otherwise.
\<close>

definition base_p1 :: "env \<Rightarrow> string" where
  "base_p1 e = (case REACT_APP_BACKEND_URL e of None \<Rightarrow> [] | Some b \<Rightarrow> strip_trailing_slash b)"

text \<open>
  A URL is under a collection path when it is that path or an item below it; a call issues
  a verb on a collection when the request it sends has that verb and a URL under the path.
\<close>

definition under :: "string \<Rightarrow> string \<Rightarrow> bool" where
  "under p u = (u = p \<or> prefix (p @ ''/'') u)"

definition issues :: "http_method \<Rightarrow> string \<Rightarrow> 'd outcome \<Rightarrow> bool" where
  "issues v p out = (case sent out of Inl err \<Rightarrow> False | Inr (m, u, b) \<Rightarrow> m = v \<and> under p u)"

text \<open>
  The identifiers a call interpolates into its URL. An identifier is free of dot segments
  when, read as the adapter reads it, none of its segments is a single or double dot.
\<close>

fun ids :: "'d call \<Rightarrow> string list" where
  "ids (UpdateTeamMember i d) = [i]"
| "ids (DeleteTeamMember i) = [i]"
| "ids (UpdateVehicle i d) = [i]"
| "ids (DeleteVehicle i) = [i]"
| "ids (UpdateBlog i d) = [i]"
| "ids (DeleteBlog i) = [i]"
| "ids c = []"

definition dot_free :: "string \<Rightarrow> bool" where
  "dot_free i =
     list_all (\<lambda>s. if is_double_dot s then False else if is_single_dot s then False else True)
       (split_path (takeWhile in_path (filter kept i)))"

text \<open>
  A call reaches a collection with a verb when the request it sends has that verb and a
  resolved path under the collection's path.
\<close>

definition reaches :: "http_method \<Rightarrow> string \<Rightarrow> 'd outcome \<Rightarrow> bool" where
  "reaches v p out =
     (case sent out of Inl err \<Rightarrow> False | Inr (m, u, b) \<Rightarrow> m = v \<and> under p (resolved_path u))"

section \<open>Properties of the client\<close>

subsection \<open>Resolving the instance and the URL\<close>

lemma call_api: "member_call ''api'' m u d (scope_api e) =
  (Inr (build_request \<lparr>baseURL = Some (API_URL e @ ''/api''), withCredentials = Some False, headers = [], params = []\<rparr> m u d), scope_api e)"
  by (simp add: member_call_def scope_api_def api_def axios_create_def axios_def)

lemma call_API_api: "member_call ''API'' m u d (scope_api e) = (Inl (ReferenceError ''API''), scope_api e)"
  by (simp add: member_call_def scope_api_def api_def axios_create_def axios_def)

lemma call_API_p2: "member_call ''API'' m u d (scope_p2 e) = (Inl (ReferenceError ''API''), scope_p2 e)"
  by (simp add: member_call_def scope_p2_def api_def axios_create_def axios_def)

lemma call_API_p1: "member_call ''API'' m u d (scope_p1 e) =
  (Inr (build_request \<lparr>baseURL = REACT_APP_BACKEND_URL e, withCredentials = None, headers = [], params = []\<rparr> m u d), scope_p1 e)"
  by (simp add: member_call_def scope_p1_def API_p1_def axios_create_def axios_def)

lemma snd_member_call: "snd (member_call x m u d s) = s"
  by (simp add: member_call_def split: option.splits binding.splits)

lemma fst_member_call_same: "fst (member_call x m u d (snd (member_call x' m' u' d' s))) = fst (member_call x m u d s)"
  by (simp add: snd_member_call)

lemma not_absolute_path: "c \<noteq> CHR ''/'' \<Longrightarrow> \<not> isAbsoluteURL (CHR ''/'' # c # rest)"
  by (simp add: isAbsoluteURL_def is_alpha_def)

lemma strip_trailing_api: "strip_trailing_slash (b @ ''/api'') = b @ ''/api''"
  by (simp add: strip_trailing_slash_def)

lemma full_url_api:
  "full_url (build_request \<lparr>baseURL = Some (b @ ''/api''), withCredentials = w, headers = h, params = p\<rparr> m (CHR ''/'' # CHR ''a'' # rest) d)
     = b @ ''/api/a'' @ rest"
  by (simp add: full_url_def build_request_def buildFullPath_def combineURLs_def
      strip_trailing_api strip_leading_slashes_def not_absolute_path)

lemma strip_trailing_empty: "strip_trailing_slash [] = []"
  by (simp add: strip_trailing_slash_def)

lemma full_url_p1:
  "full_url (build_request \<lparr>baseURL = REACT_APP_BACKEND_URL e, withCredentials = w, headers = h, params = p\<rparr> m (CHR ''/'' # CHR ''a'' # rest) d)
     = base_p1 e @ ''/a'' @ rest"
  by (simp add: full_url_def build_request_def buildFullPath_def combineURLs_def base_p1_def
      strip_leading_slashes_def not_absolute_path strip_trailing_empty split: option.splits)

lemmas api_defs = fetchTeam_def addTeamMember_def updateTeamMember_def deleteTeamMember_def
  fetchSiteSettings_def updateSiteSettings_def fetchVehicles_def createVehicle_def
  updateVehicle_def deleteVehicle_def fetchBlogs_def createBlog_def updateBlog_def deleteBlog_def

lemmas package_defs = fetchPackages_def createPackage_def updatePackage_def deletePackage_def

lemmas p1_defs = fetchTeam_p1_def addTeamMember_p1_def updateTeamMember_p1_def deleteTeamMember_p1_def
  fetchSiteSettings_p1_def updateSiteSettings_p1_def fetchVehicles_p1_def createVehicle_p1_def
  updateVehicle_p1_def deleteVehicle_p1_def fetchBlogs_p1_def createBlog_p1_def updateBlog_p1_def deleteBlog_p1_def

lemmas p2_defs = fetchTeam_p2_def addTeamMember_p2_def updateTeamMember_p2_def deleteTeamMember_p2_def
  fetchSiteSettings_p2_def updateSiteSettings_p2_def fetchVehicles_p2_def createVehicle_p2_def
  updateVehicle_p2_def deleteVehicle_p2_def fetchBlogs_p2_def createBlog_p2_def updateBlog_p2_def deleteBlog_p2_def

lemma sent_api: "sent (member_call ''api'' m (CHR ''/'' # CHR ''a'' # rest) d (scope_api e)) = Inr (m, API_URL e @ ''/api/a'' @ rest, d)"
  by (simp add: sent_def call_api full_url_api) (simp add: build_request_def)

lemma sent_p1: "sent (member_call ''API'' m (CHR ''/'' # CHR ''a'' # rest) d (scope_p1 e)) = Inr (m, base_p1 e @ ''/a'' @ rest, d)"
  by (simp add: sent_def call_API_p1 full_url_p1) (simp add: build_request_def)

lemma invoke_package_api_fails: "invoke_package_api pc (scope_api e) = (Inl (ReferenceError ''API''), scope_api e)"
  by (cases pc) (simp_all add: package_defs call_API_api)

lemma invoke_p2_fails: "invoke_p2 c (scope_p2 e) = (Inl (ReferenceError ''API''), scope_p2 e)"
  by (cases c) (simp_all add: p2_defs call_API_p2)

subsection \<open>The unbound name\<close>

text \<open>
  C1. In \<^verbatim>\<open>api.js\<close> and in \<^verbatim>\<open>part_002\<close> the axios instance is bound to the name
  \<^verbatim>\<open>api\<close> and nothing is bound to \<^verbatim>\<open>API\<close>. Every call of a tour-package export of
  \<^verbatim>\<open>api.js\<close>, whatever its arguments, throws \<^verbatim>\<open>ReferenceError\<close> on \<^verbatim>\<open>API\<close>, and so does
  every call of every export of \<^verbatim>\<open>part_002\<close>, whose default export already throws it
  while the module loads.
\<close>

theorem API_unbound:
  "map_of (scope_api e) ''api'' = Some (api e) \<and> (\<exists>cfg. api e = Instance cfg) \<and>
   map_of (scope_api e) ''API'' = None \<and>
   load_api e = Inr (scope_api e) \<and>
   invoke_package_api pc (scope_api e) = (Inl (ReferenceError ''API''), scope_api e) \<and>
   map_of (scope_p2 e) ''api'' = Some (api e) \<and>
   map_of (scope_p2 e) ''API'' = None \<and>
   load_p2 e = Inl (ReferenceError ''API'') \<and>
   invoke_p2 c (scope_p2 e) = (Inl (ReferenceError ''API''), scope_p2 e)"
proof -
  have a: "map_of (scope_api e) ''api'' = Some (api e)" "map_of (scope_api e) ''API'' = None"
    by (simp_all add: scope_api_def)
  have b: "map_of (scope_p2 e) ''api'' = Some (api e)" "map_of (scope_p2 e) ''API'' = None"
    by (simp_all add: scope_p2_def)
  have c: "\<exists>cfg. api e = Instance cfg"
    by (simp add: api_def axios_create_def)
  have d: "load_api e = Inr (scope_api e)" "load_p2 e = Inl (ReferenceError ''API'')"
    by (simp_all add: load_api_def load_p2_def resolve_def a b)
  show ?thesis
    using a b c d invoke_package_api_fails [of pc e] invoke_p2_fails [of c e] by simp
qed

subsection \<open>The fallback of the base URL\<close>

lemma invoke_api_request:
  "\<exists>m u d. invoke_api c (scope_api e) =
     (Inr (build_request \<lparr>baseURL = Some (API_URL e @ ''/api''), withCredentials = Some False, headers = [], params = []\<rparr> m (CHR ''/'' # CHR ''a'' # u) d), scope_api e)"
  by (cases c) (simp_all add: api_defs call_api, blast+)

text \<open>
  C9. When \<^verbatim>\<open>REACT_APP_API_URL\<close> is unset, \<^verbatim>\<open>API_URL\<close> is \<^verbatim>\<open>http://localhost:8000\<close>, the
  instance \<^verbatim>\<open>api\<close> has the base URL \<^verbatim>\<open>http://localhost:8000/api\<close>, and every call
  through that instance builds a request whose URL is that base URL followed by the
  relative path.
\<close>

theorem base_url_fallback:
  assumes "REACT_APP_API_URL e = None"
  shows "API_URL e = ''http://localhost:8000'' \<and>
         api e = Instance \<lparr>baseURL = Some ''http://localhost:8000/api'', withCredentials = Some False, headers = [], params = []\<rparr> \<and>
         (\<exists>r. fst (invoke_api c (scope_api e)) = Inr r \<and>
              baseURL r = Some ''http://localhost:8000/api'' \<and>
              full_url r = ''http://localhost:8000/api'' @ url r \<and>
              prefix ''http://localhost:8000/api'' (full_url r))"
proof -
  have u: "API_URL e = ''http://localhost:8000''"
    using assms by (simp add: API_URL_def or_default_def)
  have i: "api e = Instance \<lparr>baseURL = Some ''http://localhost:8000/api'', withCredentials = Some False, headers = [], params = []\<rparr>"
    by (simp add: api_def axios_create_def u)
  obtain m p d where r: "invoke_api c (scope_api e) =
     (Inr (build_request \<lparr>baseURL = Some (API_URL e @ ''/api''), withCredentials = Some False, headers = [], params = []\<rparr> m (CHR ''/'' # CHR ''a'' # p) d), scope_api e)"
    using invoke_api_request by blast
  let ?r = "build_request \<lparr>baseURL = Some (API_URL e @ ''/api''), withCredentials = Some False, headers = [], params = []\<rparr> m (CHR ''/'' # CHR ''a'' # p) d"
  have f: "full_url ?r = API_URL e @ ''/api/a'' @ p" by (rule full_url_api)
  have "fst (invoke_api c (scope_api e)) = Inr ?r" by (simp add: r)
  moreover have "baseURL ?r = Some ''http://localhost:8000/api''" by (simp add: build_request_def u)
  moreover have "full_url ?r = ''http://localhost:8000/api'' @ url ?r"
    unfolding f by (simp add: u build_request_def)
  moreover have "prefix ''http://localhost:8000/api'' (full_url ?r)"
    unfolding f by (simp add: u)
  ultimately show ?thesis using u i by blast
qed

theorem base_url_fallback_witness:
  "REACT_APP_API_URL \<lparr>REACT_APP_API_URL = None, REACT_APP_BACKEND_URL = None\<rparr> = None \<and>
   (\<exists>r. fst (invoke_api (DeleteVehicle ''42'' :: unit call)
            (scope_api \<lparr>REACT_APP_API_URL = None, REACT_APP_BACKEND_URL = None\<rparr>)) = Inr r \<and>
        full_url r = ''http://localhost:8000/api/admin/vehicles/42'')"
  using base_url_fallback [of "\<lparr>REACT_APP_API_URL = None, REACT_APP_BACKEND_URL = None\<rparr>" "DeleteVehicle ''42'' :: unit call"]
  by (auto simp add: deleteVehicle_def call_api build_request_def)

subsection \<open>Verbs and paths\<close>

text \<open>
  C2, as amended. For team, vehicles and blogs, in \<^verbatim>\<open>api.js\<close> and in \<^verbatim>\<open>part_001\<close>, the
  list and create functions send GET and POST to the base followed by
  \<^verbatim>\<open>/api/admin/{resource}\<close>, the update and delete functions send PUT and DELETE to
  that URL followed by \<^verbatim>\<open>/{id}\<close>, and the site settings are fetched and updated by GET
  and PUT on \<^verbatim>\<open>/api/admin/site-settings\<close>. The base is \<^verbatim>\<open>API_URL\<close> in \<^verbatim>\<open>api.js\<close> and the
  backend URL without its trailing slash in \<^verbatim>\<open>part_001\<close>. The tour-package functions are
  left out.
\<close>

theorem admin_paths:
  "sent (fetchTeam (scope_api e)) = Inr (GET, API_URL e @ ''/api/admin/team'', None :: 'd option) \<and>
   sent (addTeamMember d (scope_api e)) = Inr (POST, API_URL e @ ''/api/admin/team'', Some d) \<and>
   sent (updateTeamMember i d (scope_api e)) = Inr (PUT, API_URL e @ ''/api/admin/team/'' @ i, Some d) \<and>
   sent (deleteTeamMember i (scope_api e)) = Inr (DELETE, API_URL e @ ''/api/admin/team/'' @ i, None :: 'd option) \<and>
   sent (fetchVehicles (scope_api e)) = Inr (GET, API_URL e @ ''/api/admin/vehicles'', None :: 'd option) \<and>
   sent (createVehicle d (scope_api e)) = Inr (POST, API_URL e @ ''/api/admin/vehicles'', Some d) \<and>
   sent (updateVehicle i d (scope_api e)) = Inr (PUT, API_URL e @ ''/api/admin/vehicles/'' @ i, Some d) \<and>
   sent (deleteVehicle i (scope_api e)) = Inr (DELETE, API_URL e @ ''/api/admin/vehicles/'' @ i, None :: 'd option) \<and>
   sent (fetchBlogs (scope_api e)) = Inr (GET, API_URL e @ ''/api/admin/blogs'', None :: 'd option) \<and>
   sent (createBlog d (scope_api e)) = Inr (POST, API_URL e @ ''/api/admin/blogs'', Some d) \<and>
   sent (updateBlog i d (scope_api e)) = Inr (PUT, API_URL e @ ''/api/admin/blogs/'' @ i, Some d) \<and>
   sent (deleteBlog i (scope_api e)) = Inr (DELETE, API_URL e @ ''/api/admin/blogs/'' @ i, None :: 'd option) \<and>
   sent (fetchSiteSettings (scope_api e)) = Inr (GET, API_URL e @ ''/api/admin/site-settings'', None :: 'd option) \<and>
   sent (updateSiteSettings d (scope_api e)) = Inr (PUT, API_URL e @ ''/api/admin/site-settings'', Some d) \<and>
   sent (fetchTeam_p1 (scope_p1 e)) = Inr (GET, base_p1 e @ ''/api/admin/team'', None :: 'd option) \<and>
   sent (addTeamMember_p1 d (scope_p1 e)) = Inr (POST, base_p1 e @ ''/api/admin/team'', Some d) \<and>
   sent (updateTeamMember_p1 i d (scope_p1 e)) = Inr (PUT, base_p1 e @ ''/api/admin/team/'' @ i, Some d) \<and>
   sent (deleteTeamMember_p1 i (scope_p1 e)) = Inr (DELETE, base_p1 e @ ''/api/admin/team/'' @ i, None :: 'd option) \<and>
   sent (fetchVehicles_p1 (scope_p1 e)) = Inr (GET, base_p1 e @ ''/api/admin/vehicles'', None :: 'd option) \<and>
   sent (createVehicle_p1 d (scope_p1 e)) = Inr (POST, base_p1 e @ ''/api/admin/vehicles'', Some d) \<and>
   sent (updateVehicle_p1 i d (scope_p1 e)) = Inr (PUT, base_p1 e @ ''/api/admin/vehicles/'' @ i, Some d) \<and>
   sent (deleteVehicle_p1 i (scope_p1 e)) = Inr (DELETE, base_p1 e @ ''/api/admin/vehicles/'' @ i, None :: 'd option) \<and>
   sent (fetchBlogs_p1 (scope_p1 e)) = Inr (GET, base_p1 e @ ''/api/admin/blogs'', None :: 'd option) \<and>
   sent (createBlog_p1 d (scope_p1 e)) = Inr (POST, base_p1 e @ ''/api/admin/blogs'', Some d) \<and>
   sent (updateBlog_p1 i d (scope_p1 e)) = Inr (PUT, base_p1 e @ ''/api/admin/blogs/'' @ i, Some d) \<and>
   sent (deleteBlog_p1 i (scope_p1 e)) = Inr (DELETE, base_p1 e @ ''/api/admin/blogs/'' @ i, None :: 'd option) \<and>
   sent (fetchSiteSettings_p1 (scope_p1 e)) = Inr (GET, base_p1 e @ ''/api/admin/site-settings'', None :: 'd option) \<and>
   sent (updateSiteSettings_p1 d (scope_p1 e)) = Inr (PUT, base_p1 e @ ''/api/admin/site-settings'', Some d)"
  by (simp add: api_defs p1_defs sent_api sent_p1)

text \<open>
  C2 as stated includes the packages. With no environment variable set, the list function
  \<^verbatim>\<open>fetchPackages\<close> of \<^verbatim>\<open>api.js\<close> throws \<^verbatim>\<open>ReferenceError\<close>; it sends no GET to
  \<^verbatim>\<open>http://localhost:8000/api/admin/packages\<close>.
\<close>

theorem package_paths_counterexample:
  "sent (fetchPackages (scope_api \<lparr>REACT_APP_API_URL = None, REACT_APP_BACKEND_URL = None\<rparr>))
     = (Inl (ReferenceError ''API'') :: error + http_method \<times> string \<times> unit option) \<and>
   sent (fetchPackages (scope_api \<lparr>REACT_APP_API_URL = None, REACT_APP_BACKEND_URL = None\<rparr>))
     \<noteq> Inr (GET, ''http://localhost:8000/api/admin/packages'', None :: unit option)"
  by (simp add: fetchPackages_def call_API_api sent_def)


subsection \<open>Four operations for each resource\<close>

lemma issues_api:
  "issues v (API_URL e @ p) (member_call ''api'' m (CHR ''/'' # CHR ''a'' # rest) d (scope_api e))
     = (m = v \<and> under p (''/api/a'' @ rest))"
  by (simp add: issues_def sent_api under_def)

lemma issues_p1:
  "issues v (base_p1 e @ p) (member_call ''API'' m (CHR ''/'' # CHR ''a'' # rest) d (scope_p1 e))
     = (m = v \<and> under p (''/a'' @ rest))"
  by (simp add: issues_def sent_p1 under_def)

lemma issues_error: "fst out = Inl err \<Longrightarrow> issues v p out = False"
  by (simp add: issues_def sent_def)

lemma four_api:
  "issues v (API_URL e @ ''/api/admin/team'') (invoke_api c (scope_api e)) =
     ((v = GET \<and> c = FetchTeam) \<or> (v = POST \<and> (\<exists>d. c = AddTeamMember d)) \<or>
      (v = PUT \<and> (\<exists>i d. c = UpdateTeamMember i d)) \<or> (v = DELETE \<and> (\<exists>i. c = DeleteTeamMember i))) \<and>
   issues v (API_URL e @ ''/api/admin/vehicles'') (invoke_api c (scope_api e)) =
     ((v = GET \<and> c = FetchVehicles) \<or> (v = POST \<and> (\<exists>d. c = CreateVehicle d)) \<or>
      (v = PUT \<and> (\<exists>i d. c = UpdateVehicle i d)) \<or> (v = DELETE \<and> (\<exists>i. c = DeleteVehicle i))) \<and>
   issues v (API_URL e @ ''/api/admin/blogs'') (invoke_api c (scope_api e)) =
     ((v = GET \<and> c = FetchBlogs) \<or> (v = POST \<and> (\<exists>d. c = CreateBlog d)) \<or>
      (v = PUT \<and> (\<exists>i d. c = UpdateBlog i d)) \<or> (v = DELETE \<and> (\<exists>i. c = DeleteBlog i)))"
  by (cases c; cases v) (simp_all add: api_defs issues_api under_def)

lemma four_p1:
  "issues v (base_p1 e @ ''/api/admin/team'') (invoke_p1 c (scope_p1 e)) =
     ((v = GET \<and> c = FetchTeam) \<or> (v = POST \<and> (\<exists>d. c = AddTeamMember d)) \<or>
      (v = PUT \<and> (\<exists>i d. c = UpdateTeamMember i d)) \<or> (v = DELETE \<and> (\<exists>i. c = DeleteTeamMember i))) \<and>
   issues v (base_p1 e @ ''/api/admin/vehicles'') (invoke_p1 c (scope_p1 e)) =
     ((v = GET \<and> c = FetchVehicles) \<or> (v = POST \<and> (\<exists>d. c = CreateVehicle d)) \<or>
      (v = PUT \<and> (\<exists>i d. c = UpdateVehicle i d)) \<or> (v = DELETE \<and> (\<exists>i. c = DeleteVehicle i))) \<and>
   issues v (base_p1 e @ ''/api/admin/blogs'') (invoke_p1 c (scope_p1 e)) =
     ((v = GET \<and> c = FetchBlogs) \<or> (v = POST \<and> (\<exists>d. c = CreateBlog d)) \<or>
      (v = PUT \<and> (\<exists>i d. c = UpdateBlog i d)) \<or> (v = DELETE \<and> (\<exists>i. c = DeleteBlog i)))"
  by (cases c; cases v) (simp_all add: p1_defs issues_p1 under_def)

text \<open>
  C4, as amended. For team, vehicles and blogs, in \<^verbatim>\<open>api.js\<close> and in \<^verbatim>\<open>part_001\<close>, the
  calls that issue a request on the resource are exactly four: the list function with GET
  and no argument, the create function with POST and a payload, the update function with
  PUT, an id and a payload, and the delete function with DELETE and an id; the payload is
  the body of the request and the id the last segment of its URL. The tour-package
  functions are left out.
\<close>

theorem four_operations_per_resource:
  "(issues v (API_URL e @ ''/api/admin/team'') (invoke_api c (scope_api e)) =
     ((v = GET \<and> c = FetchTeam) \<or> (v = POST \<and> (\<exists>d. c = AddTeamMember d)) \<or>
      (v = PUT \<and> (\<exists>i d. c = UpdateTeamMember i d)) \<or> (v = DELETE \<and> (\<exists>i. c = DeleteTeamMember i)))) \<and>
   (issues v (API_URL e @ ''/api/admin/vehicles'') (invoke_api c (scope_api e)) =
     ((v = GET \<and> c = FetchVehicles) \<or> (v = POST \<and> (\<exists>d. c = CreateVehicle d)) \<or>
      (v = PUT \<and> (\<exists>i d. c = UpdateVehicle i d)) \<or> (v = DELETE \<and> (\<exists>i. c = DeleteVehicle i)))) \<and>
   (issues v (API_URL e @ ''/api/admin/blogs'') (invoke_api c (scope_api e)) =
     ((v = GET \<and> c = FetchBlogs) \<or> (v = POST \<and> (\<exists>d. c = CreateBlog d)) \<or>
      (v = PUT \<and> (\<exists>i d. c = UpdateBlog i d)) \<or> (v = DELETE \<and> (\<exists>i. c = DeleteBlog i)))) \<and>
   (issues v (base_p1 e @ ''/api/admin/team'') (invoke_p1 c (scope_p1 e)) =
     ((v = GET \<and> c = FetchTeam) \<or> (v = POST \<and> (\<exists>d. c = AddTeamMember d)) \<or>
      (v = PUT \<and> (\<exists>i d. c = UpdateTeamMember i d)) \<or> (v = DELETE \<and> (\<exists>i. c = DeleteTeamMember i)))) \<and>
   (issues v (base_p1 e @ ''/api/admin/vehicles'') (invoke_p1 c (scope_p1 e)) =
     ((v = GET \<and> c = FetchVehicles) \<or> (v = POST \<and> (\<exists>d. c = CreateVehicle d)) \<or>
      (v = PUT \<and> (\<exists>i d. c = UpdateVehicle i d)) \<or> (v = DELETE \<and> (\<exists>i. c = DeleteVehicle i)))) \<and>
   (issues v (base_p1 e @ ''/api/admin/blogs'') (invoke_p1 c (scope_p1 e)) =
     ((v = GET \<and> c = FetchBlogs) \<or> (v = POST \<and> (\<exists>d. c = CreateBlog d)) \<or>
      (v = PUT \<and> (\<exists>i d. c = UpdateBlog i d)) \<or> (v = DELETE \<and> (\<exists>i. c = DeleteBlog i)))) \<and>
   sent (invoke_api FetchTeam (scope_api e)) = Inr (GET, API_URL e @ ''/api/admin/team'', None :: 'd option) \<and>
   sent (invoke_api (AddTeamMember d) (scope_api e)) = Inr (POST, API_URL e @ ''/api/admin/team'', Some d) \<and>
   sent (invoke_api (UpdateTeamMember i d) (scope_api e)) = Inr (PUT, API_URL e @ ''/api/admin/team/'' @ i, Some d) \<and>
   sent (invoke_api (DeleteTeamMember i) (scope_api e)) = Inr (DELETE, API_URL e @ ''/api/admin/team/'' @ i, None :: 'd option) \<and>
   sent (invoke_api FetchVehicles (scope_api e)) = Inr (GET, API_URL e @ ''/api/admin/vehicles'', None :: 'd option) \<and>
   sent (invoke_api (CreateVehicle d) (scope_api e)) = Inr (POST, API_URL e @ ''/api/admin/vehicles'', Some d) \<and>
   sent (invoke_api (UpdateVehicle i d) (scope_api e)) = Inr (PUT, API_URL e @ ''/api/admin/vehicles/'' @ i, Some d) \<and>
   sent (invoke_api (DeleteVehicle i) (scope_api e)) = Inr (DELETE, API_URL e @ ''/api/admin/vehicles/'' @ i, None :: 'd option) \<and>
   sent (invoke_api FetchBlogs (scope_api e)) = Inr (GET, API_URL e @ ''/api/admin/blogs'', None :: 'd option) \<and>
   sent (invoke_api (CreateBlog d) (scope_api e)) = Inr (POST, API_URL e @ ''/api/admin/blogs'', Some d) \<and>
   sent (invoke_api (UpdateBlog i d) (scope_api e)) = Inr (PUT, API_URL e @ ''/api/admin/blogs/'' @ i, Some d) \<and>
   sent (invoke_api (DeleteBlog i) (scope_api e)) = Inr (DELETE, API_URL e @ ''/api/admin/blogs/'' @ i, None :: 'd option) \<and>
   sent (invoke_p1 FetchTeam (scope_p1 e)) = Inr (GET, base_p1 e @ ''/api/admin/team'', None :: 'd option) \<and>
   sent (invoke_p1 (AddTeamMember d) (scope_p1 e)) = Inr (POST, base_p1 e @ ''/api/admin/team'', Some d) \<and>
   sent (invoke_p1 (UpdateTeamMember i d) (scope_p1 e)) = Inr (PUT, base_p1 e @ ''/api/admin/team/'' @ i, Some d) \<and>
   sent (invoke_p1 (DeleteTeamMember i) (scope_p1 e)) = Inr (DELETE, base_p1 e @ ''/api/admin/team/'' @ i, None :: 'd option) \<and>
   sent (invoke_p1 FetchVehicles (scope_p1 e)) = Inr (GET, base_p1 e @ ''/api/admin/vehicles'', None :: 'd option) \<and>
   sent (invoke_p1 (CreateVehicle d) (scope_p1 e)) = Inr (POST, base_p1 e @ ''/api/admin/vehicles'', Some d) \<and>
   sent (invoke_p1 (UpdateVehicle i d) (scope_p1 e)) = Inr (PUT, base_p1 e @ ''/api/admin/vehicles/'' @ i, Some d) \<and>
   sent (invoke_p1 (DeleteVehicle i) (scope_p1 e)) = Inr (DELETE, base_p1 e @ ''/api/admin/vehicles/'' @ i, None :: 'd option) \<and>
   sent (invoke_p1 FetchBlogs (scope_p1 e)) = Inr (GET, base_p1 e @ ''/api/admin/blogs'', None :: 'd option) \<and>
   sent (invoke_p1 (CreateBlog d) (scope_p1 e)) = Inr (POST, base_p1 e @ ''/api/admin/blogs'', Some d) \<and>
   sent (invoke_p1 (UpdateBlog i d) (scope_p1 e)) = Inr (PUT, base_p1 e @ ''/api/admin/blogs/'' @ i, Some d) \<and>
   sent (invoke_p1 (DeleteBlog i) (scope_p1 e)) = Inr (DELETE, base_p1 e @ ''/api/admin/blogs/'' @ i, None :: 'd option)"
proof -
  have s: "sent (invoke_api FetchTeam (scope_api e)) = Inr (GET, API_URL e @ ''/api/admin/team'', None :: 'd option) \<and>
   sent (invoke_api (AddTeamMember d) (scope_api e)) = Inr (POST, API_URL e @ ''/api/admin/team'', Some d) \<and>
   sent (invoke_api (UpdateTeamMember i d) (scope_api e)) = Inr (PUT, API_URL e @ ''/api/admin/team/'' @ i, Some d) \<and>
   sent (invoke_api (DeleteTeamMember i) (scope_api e)) = Inr (DELETE, API_URL e @ ''/api/admin/team/'' @ i, None :: 'd option) \<and>
   sent (invoke_api FetchVehicles (scope_api e)) = Inr (GET, API_URL e @ ''/api/admin/vehicles'', None :: 'd option) \<and>
   sent (invoke_api (CreateVehicle d) (scope_api e)) = Inr (POST, API_URL e @ ''/api/admin/vehicles'', Some d) \<and>
   sent (invoke_api (UpdateVehicle i d) (scope_api e)) = Inr (PUT, API_URL e @ ''/api/admin/vehicles/'' @ i, Some d) \<and>
   sent (invoke_api (DeleteVehicle i) (scope_api e)) = Inr (DELETE, API_URL e @ ''/api/admin/vehicles/'' @ i, None :: 'd option) \<and>
   sent (invoke_api FetchBlogs (scope_api e)) = Inr (GET, API_URL e @ ''/api/admin/blogs'', None :: 'd option) \<and>
   sent (invoke_api (CreateBlog d) (scope_api e)) = Inr (POST, API_URL e @ ''/api/admin/blogs'', Some d) \<and>
   sent (invoke_api (UpdateBlog i d) (scope_api e)) = Inr (PUT, API_URL e @ ''/api/admin/blogs/'' @ i, Some d) \<and>
   sent (invoke_api (DeleteBlog i) (scope_api e)) = Inr (DELETE, API_URL e @ ''/api/admin/blogs/'' @ i, None :: 'd option) \<and>
   sent (invoke_p1 FetchTeam (scope_p1 e)) = Inr (GET, base_p1 e @ ''/api/admin/team'', None :: 'd option) \<and>
   sent (invoke_p1 (AddTeamMember d) (scope_p1 e)) = Inr (POST, base_p1 e @ ''/api/admin/team'', Some d) \<and>
   sent (invoke_p1 (UpdateTeamMember i d) (scope_p1 e)) = Inr (PUT, base_p1 e @ ''/api/admin/team/'' @ i, Some d) \<and>
   sent (invoke_p1 (DeleteTeamMember i) (scope_p1 e)) = Inr (DELETE, base_p1 e @ ''/api/admin/team/'' @ i, None :: 'd option) \<and>
   sent (invoke_p1 FetchVehicles (scope_p1 e)) = Inr (GET, base_p1 e @ ''/api/admin/vehicles'', None :: 'd option) \<and>
   sent (invoke_p1 (CreateVehicle d) (scope_p1 e)) = Inr (POST, base_p1 e @ ''/api/admin/vehicles'', Some d) \<and>
   sent (invoke_p1 (UpdateVehicle i d) (scope_p1 e)) = Inr (PUT, base_p1 e @ ''/api/admin/vehicles/'' @ i, Some d) \<and>
   sent (invoke_p1 (DeleteVehicle i) (scope_p1 e)) = Inr (DELETE, base_p1 e @ ''/api/admin/vehicles/'' @ i, None :: 'd option) \<and>
   sent (invoke_p1 FetchBlogs (scope_p1 e)) = Inr (GET, base_p1 e @ ''/api/admin/blogs'', None :: 'd option) \<and>
   sent (invoke_p1 (CreateBlog d) (scope_p1 e)) = Inr (POST, base_p1 e @ ''/api/admin/blogs'', Some d) \<and>
   sent (invoke_p1 (UpdateBlog i d) (scope_p1 e)) = Inr (PUT, base_p1 e @ ''/api/admin/blogs/'' @ i, Some d) \<and>
   sent (invoke_p1 (DeleteBlog i) (scope_p1 e)) = Inr (DELETE, base_p1 e @ ''/api/admin/blogs/'' @ i, None :: 'd option)"
    by (simp add: api_defs p1_defs sent_api sent_p1)
  show ?thesis
    using four_api [of v e c] four_p1 [of v e c] s by simp
qed

text \<open>
  C4 as stated includes the packages. \<^verbatim>\<open>part_001\<close> binds none of the four package
  functions, and in \<^verbatim>\<open>api.js\<close>, with no environment variable set, none of the four
  issues its verb on \<^verbatim>\<open>http://localhost:8000/api/admin/packages\<close>.
\<close>

theorem package_operations_counterexample:
  "map_of (scope_p1 \<lparr>REACT_APP_API_URL = None, REACT_APP_BACKEND_URL = None\<rparr>) ''fetchPackages'' = None \<and>
   map_of (scope_p1 \<lparr>REACT_APP_API_URL = None, REACT_APP_BACKEND_URL = None\<rparr>) ''createPackage'' = None \<and>
   map_of (scope_p1 \<lparr>REACT_APP_API_URL = None, REACT_APP_BACKEND_URL = None\<rparr>) ''updatePackage'' = None \<and>
   map_of (scope_p1 \<lparr>REACT_APP_API_URL = None, REACT_APP_BACKEND_URL = None\<rparr>) ''deletePackage'' = None \<and>
   \<not> issues GET ''http://localhost:8000/api/admin/packages''
       (fetchPackages (scope_api \<lparr>REACT_APP_API_URL = None, REACT_APP_BACKEND_URL = None\<rparr>) :: unit outcome) \<and>
   \<not> issues POST ''http://localhost:8000/api/admin/packages''
       (createPackage () (scope_api \<lparr>REACT_APP_API_URL = None, REACT_APP_BACKEND_URL = None\<rparr>)) \<and>
   \<not> issues PUT ''http://localhost:8000/api/admin/packages''
       (updatePackage ''1'' () (scope_api \<lparr>REACT_APP_API_URL = None, REACT_APP_BACKEND_URL = None\<rparr>)) \<and>
   \<not> issues DELETE ''http://localhost:8000/api/admin/packages''
       (deletePackage ''1'' (scope_api \<lparr>REACT_APP_API_URL = None, REACT_APP_BACKEND_URL = None\<rparr>) :: unit outcome)"
  by (simp add: scope_p1_def package_defs call_API_api issues_def sent_def)

subsection \<open>Site settings\<close>

text \<open>
  As the client builds the URLs, a call issues a verb on \<^verbatim>\<open>/api/admin/site-settings\<close>
  exactly when it is \<^verbatim>\<open>fetchSiteSettings\<close> with GET or \<^verbatim>\<open>updateSiteSettings\<close> with PUT;
  the package functions of \<^verbatim>\<open>api.js\<close> and all functions of \<^verbatim>\<open>part_002\<close> issue nothing.
\<close>

lemma site_settings_as_built:
  "issues v (API_URL e @ ''/api/admin/site-settings'') (invoke_api c (scope_api e)) =
     ((v = GET \<and> c = FetchSiteSettings) \<or> (v = PUT \<and> (\<exists>d. c = UpdateSiteSettings d))) \<and>
   \<not> issues v p (invoke_package_api pc (scope_api e)) \<and>
   issues v (base_p1 e @ ''/api/admin/site-settings'') (invoke_p1 c (scope_p1 e)) =
     ((v = GET \<and> c = FetchSiteSettings) \<or> (v = PUT \<and> (\<exists>d. c = UpdateSiteSettings d))) \<and>
   \<not> issues v p (invoke_p2 c (scope_p2 e))"
proof -
  have a: "issues v (API_URL e @ ''/api/admin/site-settings'') (invoke_api c (scope_api e)) =
     ((v = GET \<and> c = FetchSiteSettings) \<or> (v = PUT \<and> (\<exists>d. c = UpdateSiteSettings d)))"
    by (cases c; cases v) (simp_all add: api_defs issues_api under_def)
  have b: "issues v (base_p1 e @ ''/api/admin/site-settings'') (invoke_p1 c (scope_p1 e)) =
     ((v = GET \<and> c = FetchSiteSettings) \<or> (v = PUT \<and> (\<exists>d. c = UpdateSiteSettings d)))"
    by (cases c; cases v) (simp_all add: p1_defs issues_p1 under_def)
  have c: "\<not> issues v p (invoke_package_api pc (scope_api e))"
    by (simp add: invoke_package_api_fails issues_error)
  have d: "\<not> issues v p (invoke_p2 c (scope_p2 e))"
    by (simp add: invoke_p2_fails issues_error)
  show ?thesis using a b c d by simp
qed

lemma remove_dots_dot_free:
  "list_all (\<lambda>s. if is_double_dot s then False else if is_single_dot s then False else True) ss
     \<Longrightarrow> remove_dots acc ss = acc @ ss"
  by (induction ss arbitrary: acc) (auto split: if_splits)

lemma http_origin_cases:
  assumes "http_origin b"
  obtains h where "b = ''http://'' @ h \<or> b = ''https://'' @ h" and "h \<noteq> []"
    and "list_all (\<lambda>c. in_authority c \<and> kept c) h"
proof (cases "prefix ''http://'' b")
  case True
  then obtain h where h: "b = ''http://'' @ h" by (auto simp add: prefix_def)
  with assms have "h \<noteq> [] \<and> list_all (\<lambda>c. in_authority c \<and> kept c) h"
    by (simp add: http_origin_def)
  with h that show ?thesis by blast
next
  case False
  with assms have p: "prefix ''https://'' b"
    by (auto simp add: http_origin_def Let_def split: if_splits)
  then obtain h where h: "b = ''https://'' @ h" by (auto simp add: prefix_def)
  with assms have "h \<noteq> [] \<and> list_all (\<lambda>c. in_authority c \<and> kept c) h"
    by (simp add: http_origin_def)
  with h that show ?thesis by blast
qed

lemma filter_kept_host: "list_all (\<lambda>c. in_authority c \<and> kept c) h \<Longrightarrow> filter kept h = h"
  by (induction h) auto

lemma slash_ends_authority: "\<not> in_authority (CHR ''/'')"
  by (simp add: in_authority_def is_separator_def)

lemma dropWhile_host:
  "list_all (\<lambda>c. in_authority c \<and> kept c) h \<Longrightarrow> dropWhile in_authority (h @ CHR ''/'' # p) = CHR ''/'' # p"
  by (induction h) (simp_all add: slash_ends_authority)

lemma kept_slash: "kept (CHR ''/'')"
  by (simp add: kept_def tab_or_newline_def)

lemma in_path_slash: "in_path (CHR ''/'')"
  by (simp add: in_path_def ends_path_def)

lemma path_of_origin:
  assumes "http_origin b"
  shows "path_of (b @ CHR ''/'' # p) = CHR ''/'' # takeWhile in_path (filter kept p)"
proof -
  from assms obtain h where h: "b = ''http://'' @ h \<or> b = ''https://'' @ h"
    and a: "list_all (\<lambda>c. in_authority c \<and> kept c) h"
    by (rule http_origin_cases)
  have k: "kept (CHR ''h'')" "kept (CHR ''t'')" "kept (CHR ''p'')" "kept (CHR ''s'')" "kept (CHR '':'')"
    by (simp_all add: kept_def tab_or_newline_def)
  from h show ?thesis
  proof
    assume "b = ''http://'' @ h"
    then show ?thesis
      by (simp add: path_of_def after_authority_def k kept_slash in_path_slash filter_kept_host [OF a]
          dropWhile_host [OF a])
  next
    assume "b = ''https://'' @ h"
    then show ?thesis
      by (simp add: path_of_def after_authority_def k kept_slash in_path_slash filter_kept_host [OF a]
          dropWhile_host [OF a])
  qed
qed

lemma path_of_no_base:
  "path_of (CHR ''/'' # p) = CHR ''/'' # takeWhile in_path (filter kept p)"
  by (simp add: path_of_def after_authority_def kept_slash in_path_slash)

lemma resolved_path_base:
  assumes "good_base b"
  shows "resolved_path (b @ CHR ''/'' # p) =
           concat (map ((@) ''/'') (remove_dots [] (split_path (takeWhile in_path (filter kept p)))))"
proof -
  have "path_of (b @ CHR ''/'' # p) = CHR ''/'' # takeWhile in_path (filter kept p)"
    using assms path_of_origin [of b p] path_of_no_base [of p]
    by (cases "b = []") (simp_all add: good_base_def)
  then show ?thesis
    by (simp add: resolved_path_def is_separator_def)
qed


lemmas url_char_defs = kept_def tab_or_newline_def in_path_def ends_path_def is_separator_def
  is_single_dot_def is_double_dot_def

lemma reaches_api:
  assumes "http_origin (API_URL e)"
  shows "reaches v p (member_call ''api'' m (CHR ''/'' # CHR ''a'' # rest) d (scope_api e)) =
     (m = v \<and> under p (concat (map ((@) ''/'')
        (remove_dots [] (split_path (takeWhile in_path (filter kept (''api/a'' @ rest))))))))"
proof -
  have "good_base (API_URL e)" using assms by (simp add: good_base_def)
  from resolved_path_base [OF this, of "''api/a'' @ rest"] show ?thesis
    by (simp add: reaches_def sent_api)
qed

lemma reaches_p1:
  assumes "good_base (base_p1 e)"
  shows "reaches v p (member_call ''API'' m (CHR ''/'' # CHR ''a'' # rest) d (scope_p1 e)) =
     (m = v \<and> under p (concat (map ((@) ''/'')
        (remove_dots [] (split_path (takeWhile in_path (filter kept (CHR ''a'' # rest))))))))"
  using resolved_path_base [OF assms, of "CHR ''a'' # rest"]
  by (simp add: reaches_def sent_p1)

lemma reaches_error: "fst out = Inl err \<Longrightarrow> reaches v p out = False"
  by (simp add: reaches_def sent_def)

lemma site_settings_api:
  assumes "http_origin (API_URL e)" and "list_all dot_free (ids c)"
  shows "reaches v ''/api/admin/site-settings'' (invoke_api c (scope_api e)) =
     ((v = GET \<and> c = FetchSiteSettings) \<or> (v = PUT \<and> (\<exists>d. c = UpdateSiteSettings d)))"
  using assms(2)
  by (cases c; cases v)
     (simp_all add: api_defs reaches_api [OF assms(1)] under_def url_char_defs dot_free_def
        remove_dots_dot_free)

lemma site_settings_p1:
  assumes "good_base (base_p1 e)" and "list_all dot_free (ids c)"
  shows "reaches v ''/api/admin/site-settings'' (invoke_p1 c (scope_p1 e)) =
     ((v = GET \<and> c = FetchSiteSettings) \<or> (v = PUT \<and> (\<exists>d. c = UpdateSiteSettings d)))"
  using assms(2)
  by (cases c; cases v)
     (simp_all add: p1_defs reaches_p1 [OF assms(1)] under_def url_char_defs dot_free_def
        remove_dots_dot_free)

text \<open>
  C5, as amended. When the base URL is an origin (or, in \<^verbatim>\<open>part_001\<close>, unset) and the
  identifier of the call has no dot segment, the site settings are only fetched and
  updated: in \<^verbatim>\<open>api.js\<close> and in \<^verbatim>\<open>part_001\<close> the request of a call reaches
  \<^verbatim>\<open>/api/admin/site-settings\<close> exactly when the call is \<^verbatim>\<open>fetchSiteSettings\<close> with GET or
  \<^verbatim>\<open>updateSiteSettings\<close> with PUT, so no export sends POST or DELETE there; the package
  functions of \<^verbatim>\<open>api.js\<close> and all functions of \<^verbatim>\<open>part_002\<close> send nothing.
\<close>

theorem site_settings_fetch_update_only:
  assumes "http_origin (API_URL e)" and "good_base (base_p1 e)" and "list_all dot_free (ids c)"
  shows "reaches v ''/api/admin/site-settings'' (invoke_api c (scope_api e)) =
           ((v = GET \<and> c = FetchSiteSettings) \<or> (v = PUT \<and> (\<exists>d. c = UpdateSiteSettings d))) \<and>
         reaches v ''/api/admin/site-settings'' (invoke_p1 c (scope_p1 e)) =
           ((v = GET \<and> c = FetchSiteSettings) \<or> (v = PUT \<and> (\<exists>d. c = UpdateSiteSettings d))) \<and>
         \<not> reaches v p (invoke_package_api pc (scope_api e)) \<and>
         \<not> reaches v p (invoke_p2 c (scope_p2 e))"
proof -
  have a: "\<not> reaches v p (invoke_package_api pc (scope_api e))"
    by (simp add: invoke_package_api_fails reaches_error)
  have b: "\<not> reaches v p (invoke_p2 c (scope_p2 e))"
    by (simp add: invoke_p2_fails reaches_error)
  show ?thesis
    using site_settings_api [OF assms(1) assms(3), of v] site_settings_p1 [OF assms(2) assms(3), of v] a b
    by simp
qed

theorem site_settings_fetch_update_only_witness:
  "http_origin (API_URL \<lparr>REACT_APP_API_URL = None, REACT_APP_BACKEND_URL = Some ''https://gmb.example/''\<rparr>) \<and>
   good_base (base_p1 \<lparr>REACT_APP_API_URL = None, REACT_APP_BACKEND_URL = Some ''https://gmb.example/''\<rparr>) \<and>
   list_all dot_free (ids (DeleteVehicle ''64f0c2'' :: unit call)) \<and>
   \<not> reaches DELETE ''/api/admin/site-settings''
       (invoke_api (DeleteVehicle ''64f0c2'' :: unit call)
          (scope_api \<lparr>REACT_APP_API_URL = None, REACT_APP_BACKEND_URL = Some ''https://gmb.example/''\<rparr>)) \<and>
   \<not> reaches DELETE ''/api/admin/site-settings''
       (invoke_p1 (DeleteVehicle ''64f0c2'' :: unit call)
          (scope_p1 \<lparr>REACT_APP_API_URL = None, REACT_APP_BACKEND_URL = Some ''https://gmb.example/''\<rparr>))"
proof -
  let ?e = "\<lparr>REACT_APP_API_URL = None, REACT_APP_BACKEND_URL = Some ''https://gmb.example/''\<rparr>"
  have a: "http_origin (API_URL ?e)"
    by (simp add: API_URL_def or_default_def http_origin_def in_authority_def url_char_defs)
  have b: "good_base (base_p1 ?e)"
    by (simp add: base_p1_def strip_trailing_slash_def good_base_def http_origin_def
        in_authority_def url_char_defs)
  have c: "list_all dot_free (ids (DeleteVehicle ''64f0c2'' :: unit call))"
    by (simp add: dot_free_def url_char_defs)
  show ?thesis
    using site_settings_fetch_update_only [OF a b c, where v = DELETE and p = "[]" and pc = "FetchPackages :: unit package_call"] a b c
    by simp
qed

text \<open>
  C5 as stated covers every identifier. An identifier is interpolated as it is: with no
  environment variable set, \<^verbatim>\<open>deleteVehicle("../site-settings")\<close> of \<^verbatim>\<open>api.js\<close> sends a
  DELETE whose URL resolves to \<^verbatim>\<open>/api/admin/site-settings\<close>.
\<close>

theorem site_settings_delete_counterexample:
  "sent (deleteVehicle ''../site-settings'' (scope_api \<lparr>REACT_APP_API_URL = None, REACT_APP_BACKEND_URL = None\<rparr>))
     = Inr (DELETE, ''http://localhost:8000/api/admin/vehicles/../site-settings'', None :: unit option) \<and>
   resolved_path ''http://localhost:8000/api/admin/vehicles/../site-settings'' = ''/api/admin/site-settings'' \<and>
   reaches DELETE ''/api/admin/site-settings''
     (deleteVehicle ''../site-settings'' (scope_api \<lparr>REACT_APP_API_URL = None, REACT_APP_BACKEND_URL = None\<rparr>) :: unit outcome)"
proof -
  let ?e = "\<lparr>REACT_APP_API_URL = None, REACT_APP_BACKEND_URL = None\<rparr>"
  have s: "sent (deleteVehicle ''../site-settings'' (scope_api ?e))
     = Inr (DELETE, ''http://localhost:8000/api/admin/vehicles/../site-settings'', None :: unit option)"
    by (simp add: deleteVehicle_def sent_api API_URL_def or_default_def)
  have r: "resolved_path ''http://localhost:8000/api/admin/vehicles/../site-settings'' = ''/api/admin/site-settings''"
    by (simp add: resolved_path_def path_of_def after_authority_def in_authority_def url_char_defs)
  show ?thesis
    by (simp add: s r reaches_def under_def)
qed

subsection \<open>Purity\<close>

lemma snd_invoke_api: "snd (invoke_api c s) = s"
  by (cases c) (simp_all add: api_defs snd_member_call)

lemma snd_invoke_package_api: "snd (invoke_package_api pc s) = s"
  by (cases pc) (simp_all add: package_defs snd_member_call)

lemma snd_invoke_p1: "snd (invoke_p1 c s) = s"
  by (cases c) (simp_all add: p1_defs snd_member_call)

lemma snd_invoke_p2: "snd (invoke_p2 c s) = s"
  by (cases c) (simp_all add: p2_defs snd_member_call)

text \<open>
  C6. Every exported function leaves the bindings of its module as they were, and its
  outcome (the request with its verb, URL and body, or the error) is the same whether it
  runs first or after any other exported call: two calls with equal arguments build
  identical requests.
\<close>

theorem wrappers_pure:
  "snd (invoke_api c s) = s \<and>
   snd (invoke_package_api pc s) = s \<and>
   snd (invoke_p1 c s) = s \<and>
   snd (invoke_p2 c s) = s \<and>
   fst (invoke_api c (snd (invoke_api c' s))) = fst (invoke_api c s) \<and>
   fst (invoke_api c (snd (invoke_package_api pc' s))) = fst (invoke_api c s) \<and>
   fst (invoke_package_api pc (snd (invoke_api c' s))) = fst (invoke_package_api pc s) \<and>
   fst (invoke_package_api pc (snd (invoke_package_api pc' s))) = fst (invoke_package_api pc s) \<and>
   fst (invoke_p1 c (snd (invoke_p1 c' s))) = fst (invoke_p1 c s) \<and>
   fst (invoke_p2 c (snd (invoke_p2 c' s))) = fst (invoke_p2 c s)"
  by (simp add: snd_invoke_api snd_invoke_package_api snd_invoke_p1 snd_invoke_p2)

subsection \<open>The two working variants\<close>

lemma sent_invoke_both:
  "\<exists>m rest d. sent (invoke_api c (scope_api e)) = Inr (m, API_URL e @ ''/api/a'' @ rest, d) \<and>
               sent (invoke_p1 c (scope_p1 e)) = Inr (m, base_p1 e @ ''/api/a'' @ rest, d)"
  by (cases c) (simp_all add: api_defs p1_defs sent_api sent_p1)

lemma strip_no_trailing: "\<not> suffix ''/'' b \<Longrightarrow> strip_trailing_slash b = b"
proof (cases b rule: rev_cases)
  case Nil
  then show ?thesis by (simp add: strip_trailing_slash_def)
next
  case (snoc ys y)
  assume "\<not> suffix ''/'' b"
  with snoc have "y \<noteq> CHR ''/''" by (auto simp add: suffix_def)
  with snoc show ?thesis by (simp add: strip_trailing_slash_def)
qed

text \<open>
  C7, as amended. When \<^verbatim>\<open>API_URL\<close> of \<^verbatim>\<open>api.js\<close> and \<^verbatim>\<open>REACT_APP_BACKEND_URL\<close> of
  \<^verbatim>\<open>part_001\<close> are the same origin, written with no slash at its end, every function the
  two files share sends the same verb to the same URL with the same body.
\<close>

theorem variants_equivalent:
  assumes "API_URL e = origin" and "REACT_APP_BACKEND_URL e = Some origin"
    and "\<not> suffix ''/'' origin"
  shows "sent (invoke_api c (scope_api e)) = sent (invoke_p1 c (scope_p1 e))"
proof -
  have "base_p1 e = origin"
    using assms by (simp add: base_p1_def strip_no_trailing)
  with assms(1) sent_invoke_both [of c e] show ?thesis by auto
qed

theorem variants_equivalent_witness:
  "API_URL \<lparr>REACT_APP_API_URL = Some ''https://gmb.example'', REACT_APP_BACKEND_URL = Some ''https://gmb.example''\<rparr> = ''https://gmb.example'' \<and>
   \<not> suffix ''/'' ''https://gmb.example'' \<and>
   sent (invoke_p1 (UpdateBlog ''7'' ''draft'')
     (scope_p1 \<lparr>REACT_APP_API_URL = Some ''https://gmb.example'', REACT_APP_BACKEND_URL = Some ''https://gmb.example''\<rparr>))
     = Inr (PUT, ''https://gmb.example/api/admin/blogs/7'', Some ''draft'') \<and>
   sent (invoke_api (UpdateBlog ''7'' ''draft'')
     (scope_api \<lparr>REACT_APP_API_URL = Some ''https://gmb.example'', REACT_APP_BACKEND_URL = Some ''https://gmb.example''\<rparr>))
     = Inr (PUT, ''https://gmb.example/api/admin/blogs/7'', Some ''draft'')"
proof -
  let ?e = "\<lparr>REACT_APP_API_URL = Some ''https://gmb.example'', REACT_APP_BACKEND_URL = Some ''https://gmb.example''\<rparr>"
  have a: "API_URL ?e = ''https://gmb.example''"
    by (simp add: API_URL_def or_default_def)
  have b: "REACT_APP_BACKEND_URL ?e = Some ''https://gmb.example''" by simp
  have c: "\<not> suffix ''/'' ''https://gmb.example''"
    by (simp add: suffix_def)
  have d: "sent (invoke_api (UpdateBlog ''7'' ''draft'') (scope_api ?e))
     = Inr (PUT, ''https://gmb.example/api/admin/blogs/7'', Some ''draft'')"
    by (simp add: updateBlog_def sent_api a)
  show ?thesis
    using variants_equivalent [OF a b c, of "UpdateBlog ''7'' ''draft''"] a c d by simp
qed

text \<open>
  C7 as stated allows an origin written with a slash at its end. With both variables set
  to \<^verbatim>\<open>https://gmb.example/\<close>, \<^verbatim>\<open>fetchTeam\<close> of \<^verbatim>\<open>api.js\<close> sends its GET to
  \<^verbatim>\<open>https://gmb.example//api/admin/team\<close> and \<^verbatim>\<open>fetchTeam\<close> of \<^verbatim>\<open>part_001\<close> to
  \<^verbatim>\<open>https://gmb.example/api/admin/team\<close>: \<^verbatim>\<open>api.js\<close> appends \<^verbatim>\<open>/api\<close> to the variable
  before axios removes a trailing slash of the base URL.
\<close>

theorem variants_trailing_slash_counterexample:
  "sent (invoke_api (FetchTeam :: unit call)
     (scope_api \<lparr>REACT_APP_API_URL = Some ''https://gmb.example/'', REACT_APP_BACKEND_URL = Some ''https://gmb.example/''\<rparr>))
     = Inr (GET, ''https://gmb.example//api/admin/team'', None) \<and>
   sent (invoke_p1 (FetchTeam :: unit call)
     (scope_p1 \<lparr>REACT_APP_API_URL = Some ''https://gmb.example/'', REACT_APP_BACKEND_URL = Some ''https://gmb.example/''\<rparr>))
     = Inr (GET, ''https://gmb.example/api/admin/team'', None) \<and>
   sent (invoke_api (FetchTeam :: unit call)
     (scope_api \<lparr>REACT_APP_API_URL = Some ''https://gmb.example/'', REACT_APP_BACKEND_URL = Some ''https://gmb.example/''\<rparr>))
     \<noteq> sent (invoke_p1 (FetchTeam :: unit call)
     (scope_p1 \<lparr>REACT_APP_API_URL = Some ''https://gmb.example/'', REACT_APP_BACKEND_URL = Some ''https://gmb.example/''\<rparr>))"
  by (simp add: fetchTeam_def fetchTeam_p1_def sent_api sent_p1 API_URL_def or_default_def
      base_p1_def strip_trailing_slash_def)

subsection \<open>No authentication\<close>

text \<open>
  C8. Every request \<^verbatim>\<open>api.js\<close> builds, also the POST, PUT and DELETE requests on admin
  routes, has \<^verbatim>\<open>withCredentials\<close> false, no header (so no \<^verbatim>\<open>Authorization\<close> header) and
  no query parameter; the package functions build no request.
\<close>

theorem requests_unauthenticated:
  "(\<exists>r. fst (invoke_api c (scope_api e)) = Inr r \<and>
        withCredentials r = Some False \<and> headers r = [] \<and> params r = [] \<and>
        map_of (headers r) ''Authorization'' = None) \<and>
   fst (invoke_package_api pc (scope_api e)) = Inl (ReferenceError ''API'')"
proof -
  obtain m p d where r: "invoke_api c (scope_api e) =
     (Inr (build_request \<lparr>baseURL = Some (API_URL e @ ''/api''), withCredentials = Some False, headers = [], params = []\<rparr> m (CHR ''/'' # CHR ''a'' # p) d), scope_api e)"
    using invoke_api_request by blast
  show ?thesis
    by (simp add: r invoke_package_api_fails) (simp add: build_request_def)
qed

section \<open>Properties of the admin backend\<close>

lemma authorize_valid:
  "authorize sign secret now tok =
     (if token_valid sign secret now tok then Inr (subject (the tok)) else Inl AuthenticationError)"
  by (simp add: authorize_def token_valid_def split: option.splits)

text \<open>
  C3. An admin route runs its controller exactly when the token is valid (signed with the
  configured secret and not expired) and answers \<open>AuthenticationError\<close> with the store
  untouched otherwise; so whenever an operation on any resource changes the store, the
  token was valid.
\<close>

theorem mutation_requires_valid_token:
  "admin_route sign secret required now tok r op st =
     (if token_valid sign secret now tok then controller required r op st
      else (Inl AuthenticationError, st)) \<and>
   (snd (admin_route sign secret required now tok r op st) \<noteq> st \<longrightarrow>
      token_valid sign secret now tok)"
  by (simp add: admin_route_def authorize_valid)

theorem mutation_requires_valid_token_witness:
  "snd (admin_route (\<lambda>k c. k @ fst c) ''s3cret'' (\<lambda>r. [''make'']) 100
         (Some \<lparr>subject = ''admin'', issued_at = 50, expiry = 150, signature = ''s3cretadmin''\<rparr>)
         Vehicles (OpCreate [(''make'', ''Toyota'')]) (\<lambda>r. [])) \<noteq> (\<lambda>r. []) \<and>
   token_valid (\<lambda>k c. k @ fst c) ''s3cret'' 100
         (Some \<lparr>subject = ''admin'', issued_at = 50, expiry = 150, signature = ''s3cretadmin''\<rparr>) \<and>
   admin_route (\<lambda>k c. k @ fst c) ''s3cret'' (\<lambda>r. [''make'']) 100
         None Vehicles (OpCreate [(''make'', ''Toyota'')]) (\<lambda>r. [])
     = (Inl AuthenticationError, \<lambda>r. [])"
proof -
  let ?sign = "\<lambda>(k::string) (c::string \<times> nat \<times> nat). k @ fst c"
  let ?tok = "Some \<lparr>subject = ''admin'', issued_at = 50, expiry = 150, signature = ''s3cretadmin''\<rparr>"
  let ?st = "(\<lambda>r. []) :: store"
  have v: "token_valid ?sign ''s3cret'' 100 ?tok"
    by (simp add: token_valid_def)
  have n: "\<not> token_valid ?sign ''s3cret'' 100 None"
    by (simp add: token_valid_def)
  have "snd (admin_route ?sign ''s3cret'' (\<lambda>r. [''make'']) 100 ?tok Vehicles (OpCreate [(''make'', ''Toyota'')]) ?st) Vehicles
          \<noteq> ?st Vehicles"
    by (simp add: admin_route_def authorize_valid v controller_def fresh_id_def)
  then have c: "snd (admin_route ?sign ''s3cret'' (\<lambda>r. [''make'']) 100 ?tok Vehicles (OpCreate [(''make'', ''Toyota'')]) ?st) \<noteq> ?st"
    by metis
  show ?thesis
    using mutation_requires_valid_token [of ?sign "''s3cret''" "\<lambda>r. [''make'']" 100 ?tok Vehicles "OpCreate [(''make'', ''Toyota'')]" ?st]
      mutation_requires_valid_token [of ?sign "''s3cret''" "\<lambda>r. [''make'']" 100 None Vehicles "OpCreate [(''make'', ''Toyota'')]" ?st]
      c n by simp
qed

end
